theory Spec2Isabelle
  imports Main
begin

section \<open>Data model\<close>

text \<open>
  \<^verbatim>\<open>src/app/types.ts\<close> declares the enums below.  The screens import the interfaces
  \<^verbatim>\<open>JobFilters\<close> and \<^verbatim>\<open>JobWithDetails\<close> from the same module, which does not declare them;
  their fields are taken from what the screens and the filter modal read and write:
  \<^verbatim>\<open>page, limit, search, location, employmentType, experienceLevel, salaryMin, salaryMax,
  isRemote, skills\<close> for the filters (every field but \<^verbatim>\<open>page\<close> and \<^verbatim>\<open>limit\<close> may be
  \<^verbatim>\<open>undefined\<close>), and \<^verbatim>\<open>id, isSaved\<close> plus display fields (represented by \<^verbatim>\<open>title\<close>) for a
  job.  JavaScript numbers are modelled as \<open>int\<close>.
\<close>

datatype EmploymentType = FULL_TIME | PART_TIME | CONTRACT | INTERNSHIP | FREELANCE

datatype ExperienceLevel = ENTRY | INTERMEDIATE | SENIOR | LEAD | EXECUTIVE

record JobFilters =
  page :: int
  limit :: int
  search :: "string option"
  location :: "string option"
  employmentType :: "EmploymentType option"
  experienceLevel :: "ExperienceLevel option"
  salaryMin :: "int option"
  salaryMax :: "int option"
  isRemote :: "bool option"
  skills :: "string list option"

text \<open>The field \<^verbatim>\<open>id\<close> of a job is named \<open>id'\<close> here, \<open>id\<close> being the identity function.\<close>

record JobWithDetails =
  id' :: string
  title :: string
  isSaved :: bool

text \<open>
  The \<^verbatim>\<open>pagination\<close> state of the screen; its fields \<^verbatim>\<open>total, page, totalPages\<close> carry the
  prefix \<open>pg_\<close> to keep them apart from the filters' \<open>page\<close>.
\<close>

record Pagination =
  pg_total :: int
  pg_page :: int
  pg_totalPages :: int

text \<open>A call of \<^verbatim>\<open>Alert.alert(title, message)\<close>.\<close>

datatype alert = Alert string string

text \<open>
  What \<^verbatim>\<open>await jobsAPI.getAllJobs(filters)\<close> settles with.  \<open>Failed e\<close> is a rejection
  (network error, timeout, or a status outside 2xx), \<open>e\<close> being
  \<^verbatim>\<open>error.response?.data?.error\<close>.  \<open>Response js pg\<close> is a fulfilled call with
  \<^verbatim>\<open>response.data?.jobs\<close> equal to \<open>js\<close> and \<^verbatim>\<open>response.data.pagination\<close> equal to \<open>pg\<close>
  (\<open>None\<close> for \<^verbatim>\<open>undefined\<close>).
\<close>

datatype jobs_response =
  Failed "string option"
| Response "JobWithDetails list option" "Pagination option"

text \<open>What \<^verbatim>\<open>await jobsAPI.saveJob(jobId)\<close> or \<^verbatim>\<open>unsaveJob(jobId)\<close> settles with.\<close>

datatype save_response = SaveFailed "string option" | SaveOk

text \<open>
  A call of \<^verbatim>\<open>loadJobs\<close> suspended at its \<^verbatim>\<open>await\<close>: the continuation still holds the
  argument \<^verbatim>\<open>isRefresh\<close> and the \<^verbatim>\<open>filters\<close> of the render that created it.
\<close>

record load_request =
  req_isRefresh :: bool
  req_filters :: JobFilters

text \<open>
  A call of \<^verbatim>\<open>handleSaveJob\<close> suspended at its \<^verbatim>\<open>await\<close>: the job id and the
  \<^verbatim>\<open>job.isSaved\<close> read before the call, which chose between \<^verbatim>\<open>unsaveJob\<close> and \<^verbatim>\<open>saveJob\<close>.
\<close>

record save_request =
  sv_jobId :: string
  sv_wasSaved :: bool

text \<open>
  The state of \<^verbatim>\<open>FindJobsScreen\<close>: its eight \<^verbatim>\<open>useState\<close> cells, the suspended calls in
  the order they were issued, and the alerts shown so far.  \<open>effectPending\<close> records that
  \<^verbatim>\<open>filters\<close> holds a new object since the effect
  \<^verbatim>\<open>useEffect(() => { loadJobs(); }, [filters])\<close> last ran, so that React runs the effect
  after the next render.
\<close>

record FindJobsScreen =
  jobs :: "JobWithDetails list"
  isLoading :: bool
  isRefreshing :: bool
  isLoadingMore :: bool
  searchQuery :: string
  showFilters :: bool
  filters :: JobFilters
  pagination :: Pagination
  pending :: "load_request list"
  pendingSaves :: "save_request list"
  alerts :: "alert list"
  effectPending :: bool

section \<open>The jobs list screen\<close>

text \<open>\<^verbatim>\<open>e || fallback\<close> for an optional string: \<^verbatim>\<open>undefined\<close> and \<^verbatim>\<open>''\<close> are falsy.\<close>

definition orElse :: "string option \<Rightarrow> string \<Rightarrow> string" where
  "orElse e fallback = (case e of None \<Rightarrow> fallback | Some m \<Rightarrow> if m = [] then fallback else m)"

definition defaultFilters :: JobFilters where
  "defaultFilters =
     \<lparr>page = 1, limit = 10, search = None, location = None, employmentType = None,
      experienceLevel = None, salaryMin = None, salaryMax = None, isRemote = None,
      skills = None\<rparr>"

text \<open>
  The initial values of the \<^verbatim>\<open>useState\<close> cells; the effect is due after the first render.
\<close>

definition initialState :: FindJobsScreen where
  "initialState =
     \<lparr>jobs = [], isLoading = True, isRefreshing = False, isLoadingMore = False,
      searchQuery = [], showFilters = False, filters = defaultFilters,
      pagination = \<lparr>pg_total = 0, pg_page = 1, pg_totalPages = 1\<rparr>,
      pending = [], pendingSaves = [], alerts = [], effectPending = True\<rparr>"

text \<open>
  \<^verbatim>\<open>loadJobs(isRefresh)\<close> up to its \<^verbatim>\<open>await\<close>: one flag is set and the request leaves with
  the current filters.
\<close>

definition loadJobs_start :: "bool \<Rightarrow> FindJobsScreen \<Rightarrow> FindJobsScreen" where
  "loadJobs_start isRefresh s =
     (let s1 = (if isRefresh then s\<lparr>isRefreshing := True\<rparr>
                else if page (filters s) = 1 then s\<lparr>isLoading := True\<rparr>
                else s\<lparr>isLoadingMore := True\<rparr>)
      in s1\<lparr>pending := pending s1 @ [\<lparr>req_isRefresh = isRefresh, req_filters = filters s\<rparr>]\<rparr>)"

text \<open>The \<^verbatim>\<open>finally\<close> block of \<^verbatim>\<open>loadJobs\<close>.\<close>

definition loadJobs_finally :: "FindJobsScreen \<Rightarrow> FindJobsScreen" where
  "loadJobs_finally s = s\<lparr>isLoading := False, isRefreshing := False, isLoadingMore := False\<rparr>"

text \<open>
  \<^verbatim>\<open>loadJobs\<close> from its \<^verbatim>\<open>await\<close> on.  A response with jobs replaces the list when the
  request was for page 1 or a refresh and is appended otherwise; reading
  \<^verbatim>\<open>response.data.pagination.total\<close> of a response without pagination throws a
  \<^verbatim>\<open>TypeError\<close> after \<^verbatim>\<open>setJobs\<close>, which the \<^verbatim>\<open>catch\<close> block reports with its fallback
  message.  A response without jobs only logs a warning.
\<close>

definition loadJobs_settle :: "load_request \<Rightarrow> jobs_response \<Rightarrow> FindJobsScreen \<Rightarrow> FindJobsScreen" where
  "loadJobs_settle req resp s =
     (case resp of
        Failed e \<Rightarrow>
          loadJobs_finally (s\<lparr>alerts := alerts s @ [Alert ''Error'' (orElse e ''Failed to load jobs'')]\<rparr>)
      | Response None pgo \<Rightarrow> loadJobs_finally s
      | Response (Some newJobs) pgo \<Rightarrow>
          (let s1 = s\<lparr>jobs := (if page (req_filters req) = 1 \<or> req_isRefresh req then newJobs
                                 else jobs s @ newJobs)\<rparr>
           in case pgo of
                None \<Rightarrow>
                  loadJobs_finally
                    (s1\<lparr>alerts := alerts s1 @ [Alert ''Error'' (orElse None ''Failed to load jobs'')]\<rparr>)
              | Some pg \<Rightarrow> loadJobs_finally (s1\<lparr>pagination := pg\<rparr>)))"

text \<open>
  \<^verbatim>\<open>setFilters(f)\<close>: every call in this screen stores a fresh object, so each of them makes
  the effect due.  The call itself sets no flag and issues no request.
\<close>

definition setFilters :: "JobFilters \<Rightarrow> FindJobsScreen \<Rightarrow> FindJobsScreen" where
  "setFilters f s = s\<lparr>filters := f, effectPending := True\<rparr>"

text \<open>
  A render and the effects after it: \<^verbatim>\<open>useEffect(() => { loadJobs(); }, [filters])\<close> calls
  \<^verbatim>\<open>loadJobs()\<close> once when \<^verbatim>\<open>filters\<close> has changed since it last ran, however many calls of
  \<^verbatim>\<open>setFilters\<close> came before the render, and not at all otherwise.
\<close>

definition useEffect_filters :: "FindJobsScreen \<Rightarrow> FindJobsScreen" where
  "useEffect_filters s =
     (if effectPending s then loadJobs_start False (s\<lparr>effectPending := False\<rparr>) else s)"

text \<open>Mounting the screen: the first render, and the effect after it.\<close>

definition mount :: FindJobsScreen where
  "mount = useEffect_filters initialState"

definition handleSearch :: "FindJobsScreen \<Rightarrow> FindJobsScreen" where
  "handleSearch s = setFilters ((filters s)\<lparr>search := Some (searchQuery s), page := 1\<rparr>) s"

text \<open>
  \<^verbatim>\<open>handleRefresh\<close> queues the filter update and calls \<^verbatim>\<open>loadJobs(true)\<close> itself, with the
  filters of the current render; after the next render the effect runs \<^verbatim>\<open>loadJobs()\<close> on
  the updated filters.
\<close>

definition handleRefresh :: "FindJobsScreen \<Rightarrow> FindJobsScreen" where
  "handleRefresh s = setFilters ((filters s)\<lparr>page := 1\<rparr>) (loadJobs_start True s)"

text \<open>
  \<^verbatim>\<open>handleLoadMore\<close> tests the guard and queues the page increment, nothing else:
  \<^verbatim>\<open>isLoadingMore\<close> is set and the request issued by \<^verbatim>\<open>loadJobs\<close>, which the effect calls
  after the next render.
\<close>

definition handleLoadMore :: "FindJobsScreen \<Rightarrow> FindJobsScreen" where
  "handleLoadMore s =
     (if \<not> isLoadingMore s \<and> pg_page (pagination s) < pg_totalPages (pagination s)
      then setFilters ((filters s)\<lparr>page := (if page (filters s) = 0 then 1 else page (filters s)) + 1\<rparr>) s
      else s)"

definition handleApplyFilters :: "JobFilters \<Rightarrow> FindJobsScreen \<Rightarrow> FindJobsScreen" where
  "handleApplyFilters newFilters s = setFilters (newFilters\<lparr>page := 1\<rparr>) (s\<lparr>showFilters := False\<rparr>)"

definition handleClearFilters :: "FindJobsScreen \<Rightarrow> FindJobsScreen" where
  "handleClearFilters s = setFilters defaultFilters (s\<lparr>searchQuery := []\<rparr>)"

text \<open>The close buttons of the three filter chips in \<^verbatim>\<open>renderHeader\<close>.\<close>

definition removeLocationChip :: "FindJobsScreen \<Rightarrow> FindJobsScreen" where
  "removeLocationChip s = setFilters ((filters s)\<lparr>location := None, page := 1\<rparr>) s"

definition removeEmploymentTypeChip :: "FindJobsScreen \<Rightarrow> FindJobsScreen" where
  "removeEmploymentTypeChip s = setFilters ((filters s)\<lparr>employmentType := None, page := 1\<rparr>) s"

definition removeExperienceLevelChip :: "FindJobsScreen \<Rightarrow> FindJobsScreen" where
  "removeExperienceLevelChip s = setFilters ((filters s)\<lparr>experienceLevel := None, page := 1\<rparr>) s"

text \<open>
  \<^verbatim>\<open>handleSaveJob(jobId)\<close> up to its \<^verbatim>\<open>await\<close>: it returns at once when no job has the id,
  and otherwise issues the gateway call chosen by the job's \<^verbatim>\<open>isSaved\<close>.
\<close>

definition handleSaveJob_start :: "string \<Rightarrow> FindJobsScreen \<Rightarrow> FindJobsScreen" where
  "handleSaveJob_start jobId s =
     (case find (\<lambda>j. id' j = jobId) (jobs s) of
        None \<Rightarrow> s
      | Some job \<Rightarrow>
          s\<lparr>pendingSaves := pendingSaves s @ [\<lparr>sv_jobId = jobId, sv_wasSaved = isSaved job\<rparr>]\<rparr>)"

text \<open>\<^verbatim>\<open>handleSaveJob\<close> from its \<^verbatim>\<open>await\<close> on.\<close>

definition handleSaveJob_settle :: "save_request \<Rightarrow> save_response \<Rightarrow> FindJobsScreen \<Rightarrow> FindJobsScreen" where
  "handleSaveJob_settle req resp s =
     (case resp of
        SaveFailed e \<Rightarrow> s\<lparr>alerts := alerts s @ [Alert ''Error'' (orElse e ''Failed to save job'')]\<rparr>
      | SaveOk \<Rightarrow>
          s\<lparr>alerts := alerts s @
               [Alert ''Success'' (if sv_wasSaved req then ''Job removed from saved''
                                   else ''Job saved successfully'')],
            jobs := map (\<lambda>j. if id' j = sv_jobId req then j\<lparr>isSaved := \<not> isSaved j\<rparr> else j) (jobs s)\<rparr>)"

text \<open>
  The event loop.  Handlers, renders and continuations run one at a time.  A handler only
  does what its body does; \<open>Render\<close> is the render that follows and the effect after it, so
  that two handler calls with no \<open>Render\<close> between them are two calls from the same render.
  A suspended call is resumed by index with the response that arrived for it, and an index
  with no suspended call is no event.  A handler reads \<^verbatim>\<open>isLoadingMore\<close>, \<^verbatim>\<open>pagination\<close>,
  \<^verbatim>\<open>filters\<close>, \<^verbatim>\<open>searchQuery\<close> and \<^verbatim>\<open>jobs\<close> as its render saw them; they are read from the
  state here, which is the same value as long as the cell was not set since that render.
\<close>

datatype event =
  Render
| Search
| Refresh
| LoadMore
| ApplyFilters JobFilters
| ClearFilters
| RemoveLocation
| RemoveEmploymentType
| RemoveExperienceLevel
| ChangeSearchText string
| OpenFilters
| CloseFilters
| SaveJob string
| LoadSettled nat jobs_response
| SaveSettled nat save_response

definition remove_nth :: "nat \<Rightarrow> 'a list \<Rightarrow> 'a list" where
  "remove_nth i xs = take i xs @ drop (Suc i) xs"

fun step :: "event \<Rightarrow> FindJobsScreen \<Rightarrow> FindJobsScreen" where
  "step Render s = useEffect_filters s"
| "step Search s = handleSearch s"
| "step Refresh s = handleRefresh s"
| "step LoadMore s = handleLoadMore s"
| "step (ApplyFilters newFilters) s = handleApplyFilters newFilters s"
| "step ClearFilters s = handleClearFilters s"
| "step RemoveLocation s = removeLocationChip s"
| "step RemoveEmploymentType s = removeEmploymentTypeChip s"
| "step RemoveExperienceLevel s = removeExperienceLevelChip s"
| "step (ChangeSearchText q) s = s\<lparr>searchQuery := q\<rparr>"
| "step OpenFilters s = s\<lparr>showFilters := True\<rparr>"
| "step CloseFilters s = s\<lparr>showFilters := False\<rparr>"
| "step (SaveJob jobId) s = handleSaveJob_start jobId s"
| "step (LoadSettled i resp) s =
     (if i < length (pending s)
      then loadJobs_settle (pending s ! i) resp (s\<lparr>pending := remove_nth i (pending s)\<rparr>)
      else s)"
| "step (SaveSettled i resp) s =
     (if i < length (pendingSaves s)
      then handleSaveJob_settle (pendingSaves s ! i) resp (s\<lparr>pendingSaves := remove_nth i (pendingSaves s)\<rparr>)
      else s)"

text \<open>The state after a sequence of events, the first event of the list first.\<close>

fun run :: "event list \<Rightarrow> FindJobsScreen \<Rightarrow> FindJobsScreen" where
  "run [] s = s"
| "run (e # es) s = run es (step e s)"

section \<open>The job details screen\<close>

text \<open>
  \<^verbatim>\<open>JobDetailsScreen\<close> holds one job (\<^verbatim>\<open>null\<close> until loaded).  Its \<^verbatim>\<open>handleSaveJob\<close>
  keeps the \<^verbatim>\<open>job\<close> of the render that started it across the \<^verbatim>\<open>await\<close>.
\<close>

record JobDetailsScreen =
  job :: "JobWithDetails option"
  details_pendingSaves :: "JobWithDetails list"
  details_alerts :: "alert list"

definition details_handleSaveJob_start :: "JobDetailsScreen \<Rightarrow> JobDetailsScreen" where
  "details_handleSaveJob_start s =
     (case job s of
        None \<Rightarrow> s
      | Some j \<Rightarrow> s\<lparr>details_pendingSaves := details_pendingSaves s @ [j]\<rparr>)"

definition details_handleSaveJob_settle ::
  "JobWithDetails \<Rightarrow> save_response \<Rightarrow> JobDetailsScreen \<Rightarrow> JobDetailsScreen" where
  "details_handleSaveJob_settle j resp s =
     (case resp of
        SaveFailed e \<Rightarrow>
          s\<lparr>details_alerts := details_alerts s @ [Alert ''Error'' (orElse e ''Failed to save job'')]\<rparr>
      | SaveOk \<Rightarrow>
          (if isSaved j
           then s\<lparr>details_alerts := details_alerts s @ [Alert ''Success'' ''Job removed from saved''],
                  job := Some (j\<lparr>isSaved := False\<rparr>)\<rparr>
           else s\<lparr>details_alerts := details_alerts s @ [Alert ''Success'' ''Job saved successfully''],
                  job := Some (j\<lparr>isSaved := True\<rparr>)\<rparr>))"

section \<open>The HTTP client and the session store\<close>

text \<open>
  \<^verbatim>\<open>AsyncStorage\<close> is a map from keys to strings; \<^verbatim>\<open>getItem\<close> of an absent key gives
  \<^verbatim>\<open>null\<close>, here \<open>None\<close>.
\<close>

type_synonym AsyncStorage = "string \<rightharpoonup> string"

definition removeItem :: "string \<Rightarrow> AsyncStorage \<Rightarrow> AsyncStorage" where
  "removeItem k st = st(k := None)"

definition setItem :: "string \<Rightarrow> string \<Rightarrow> AsyncStorage \<Rightarrow> AsyncStorage" where
  "setItem k v st = st(k \<mapsto> v)"

text \<open>
  An \<^verbatim>\<open>AxiosError\<close>, as far as the interceptor reads it: \<^verbatim>\<open>error.response?.status\<close>, which
  is \<^verbatim>\<open>undefined\<close> when no response arrived.
\<close>

record AxiosError =
  response_status :: "int option"

text \<open>
  The rejection handler of \<^verbatim>\<open>api.interceptors.response\<close> in \<^verbatim>\<open>src/app/config/api.ts\<close>: on
  status 401 it removes \<^verbatim>\<open>authToken\<close> and then \<^verbatim>\<open>userRole\<close>, and in every case it rejects
  with the error it was given.  The result is the storage afterwards and that error.
\<close>

definition responseInterceptor :: "AxiosError \<Rightarrow> AsyncStorage \<Rightarrow> AsyncStorage \<times> AxiosError" where
  "responseInterceptor error st =
     (if response_status error = Some 401
      then (removeItem ''userRole'' (removeItem ''authToken'' st), error)
      else (st, error))"

text \<open>
  The state of \<^verbatim>\<open>AuthProvider\<close>.  The user object is whatever \<^verbatim>\<open>JSON.parse\<close> returns, of a
  type \<open>'u\<close> left open; the role read from storage is a string cast to \<^verbatim>\<open>UserRole\<close> without
  a check.  The provider's \<^verbatim>\<open>isLoading\<close> is named \<open>auth_isLoading\<close>.
\<close>

record 'u AuthProvider =
  user :: "'u option"
  userRole :: "string option"
  auth_isLoading :: bool
  token :: "string option"

definition initialAuth :: "'u AuthProvider" where
  "initialAuth = \<lparr>user = None, userRole = None, auth_isLoading = True, token = None\<rparr>"

text \<open>\<^verbatim>\<open>isAuthenticated: !!token\<close>: neither \<^verbatim>\<open>null\<close> nor the empty string.\<close>

definition isAuthenticated :: "'u AuthProvider \<Rightarrow> bool" where
  "isAuthenticated s = (case token s of None \<Rightarrow> False | Some t \<Rightarrow> t \<noteq> [])"

text \<open>An awaited call or an expression either throws or returns a value.\<close>

datatype 'a outcome = Throws | Returns 'a

text \<open>Reading a storage that does not fail.\<close>

definition getItem :: "AsyncStorage \<Rightarrow> string \<Rightarrow> string option outcome" where
  "getItem st k = Returns (st k)"

text \<open>A stored value that is neither \<^verbatim>\<open>null\<close> nor empty, the test \<^verbatim>\<open>&&\<close> makes.\<close>

fun truthy :: "string option outcome \<Rightarrow> bool" where
  "truthy (Returns (Some v)) = (v \<noteq> [])"
| "truthy (Returns None) = False"
| "truthy Throws = False"

text \<open>
  \<^verbatim>\<open>checkAuthStatus\<close>, run once when the provider mounts.  \<open>read\<close> is
  \<^verbatim>\<open>AsyncStorage.getItem\<close> (a rejected read throws at its \<^verbatim>\<open>await\<close>) and \<open>parse\<close> is
  \<^verbatim>\<open>JSON.parse\<close>, which throws on malformed text and may return \<^verbatim>\<open>null\<close>.  The three reads
  come first; the token and the role are set before \<^verbatim>\<open>JSON.parse\<close> is evaluated, so a
  parse error leaves them set.  The \<^verbatim>\<open>finally\<close> block clears the loading flag.
\<close>

definition checkAuthStatus ::
  "(string \<Rightarrow> 'u option outcome) \<Rightarrow> (string \<Rightarrow> string option outcome) \<Rightarrow> 'u AuthProvider \<Rightarrow> 'u AuthProvider" where
  "checkAuthStatus parse read s =
     (case read ''authToken'' of
        Throws \<Rightarrow> s\<lparr>auth_isLoading := False\<rparr>
      | Returns storedToken \<Rightarrow>
     (case read ''userRole'' of
        Throws \<Rightarrow> s\<lparr>auth_isLoading := False\<rparr>
      | Returns storedRole \<Rightarrow>
     (case read ''userData'' of
        Throws \<Rightarrow> s\<lparr>auth_isLoading := False\<rparr>
      | Returns storedUser \<Rightarrow>
          (if truthy (Returns storedToken) \<and> truthy (Returns storedRole) \<and> truthy (Returns storedUser)
           then (let s1 = s\<lparr>token := storedToken, userRole := storedRole\<rparr>
                 in case parse (case storedUser of None \<Rightarrow> [] | Some text \<Rightarrow> text) of
                      Throws \<Rightarrow> s1\<lparr>auth_isLoading := False\<rparr>
                    | Returns u \<Rightarrow> s1\<lparr>user := u, auth_isLoading := False\<rparr>)
           else s\<lparr>auth_isLoading := False\<rparr>))))"

text \<open>
  \<^verbatim>\<open>logout\<close> on a storage that does not fail: the three keys are removed and the three
  state cells are set to \<^verbatim>\<open>null\<close>.
\<close>

definition logout :: "AsyncStorage \<times> 'u AuthProvider \<Rightarrow> AsyncStorage \<times> 'u AuthProvider" where
  "logout p =
     (removeItem ''userData'' (removeItem ''userRole'' (removeItem ''authToken'' (fst p))),
      (snd p)\<lparr>token := None, userRole := None, user := None\<rparr>)"

section \<open>Sample data and auxiliary predicates\<close>

text \<open>
  Two jobs and two responses of the backend, used in the concrete runs below: a first page
  of a three-page result, and a second page that repeats a job of the first (the backend
  decides what a page holds).
\<close>

definition job1 :: JobWithDetails where
  "job1 = \<lparr>id' = ''1'', title = ''Engineer'', isSaved = False\<rparr>"

definition job2 :: JobWithDetails where
  "job2 = \<lparr>id' = ''2'', title = ''Designer'', isSaved = False\<rparr>"

definition firstPage :: jobs_response where
  "firstPage = Response (Some [job1]) (Some \<lparr>pg_total = 3, pg_page = 1, pg_totalPages = 3\<rparr>)"

definition overlappingPage :: jobs_response where
  "overlappingPage = Response (Some [job1, job2]) (Some \<lparr>pg_total = 3, pg_page = 2, pg_totalPages = 3\<rparr>)"

text \<open>How many of the three loading flags are true.\<close>

definition flagCount :: "FindJobsScreen \<Rightarrow> nat" where
  "flagCount s = length (filter id [isLoading s, isRefreshing s, isLoadingMore s])"

text \<open>
  A storage holding a complete session, and a stand-in for \<^verbatim>\<open>JSON.parse\<close> that keeps the
  text as the user object and rejects the empty text.
\<close>

definition storedSession :: AsyncStorage where
  "storedSession = [''authToken'' \<mapsto> ''t0k3n'', ''userRole'' \<mapsto> ''JOB_SEEKER'', ''userData'' \<mapsto> ''{}'']"

definition parseAny :: "string \<Rightarrow> string option outcome" where
  "parseAny text = (if text = [] then Throws else Returns (Some text))"

section \<open>Theorems\<close>

subsection \<open>Auxiliary facts\<close>

lemma page_setFilters: "page (filters (setFilters f s)) = page f"
  by (simp add: setFilters_def)


lemma pending_render_setFilters:
  "pending (step Render (setFilters f s)) = pending s @ [\<lparr>req_isRefresh = False, req_filters = f\<rparr>]"
  by (simp add: setFilters_def useEffect_filters_def loadJobs_start_def Let_def)

lemma jobs_render_setFilters: "jobs (step Render (setFilters f s)) = jobs s"
  by (simp add: setFilters_def useEffect_filters_def loadJobs_start_def Let_def)

lemma remove_nth_last: "remove_nth (length xs) (xs @ [x]) = xs"
  by (simp add: remove_nth_def)

lemma step_LoadSettled_last:
  "pending s1 = ps @ [r] \<Longrightarrow>
   step (LoadSettled (length ps) resp) s1 = loadJobs_settle r resp (s1\<lparr>pending := ps\<rparr>)"
  by (simp add: remove_nth_last)




lemmas eval_defs = mount_def initialState_def defaultFilters_def loadJobs_start_def loadJobs_settle_def
  loadJobs_finally_def setFilters_def useEffect_filters_def handleRefresh_def handleLoadMore_def handleApplyFilters_def
  handleSearch_def handleSaveJob_start_def handleSaveJob_settle_def remove_nth_def orElse_def Let_def
  job1_def job2_def firstPage_def overlappingPage_def

subsection \<open>Filters and pagination\<close>

text \<open>
  C7.  After applying the filter modal, submitting a search, removing a filter chip or
  clearing the filters, the page of the query is 1, whatever it was before.
\<close>

theorem applyFilters_resets_page:
  "page (filters (handleApplyFilters newFilters s)) = 1
   \<and> page (filters (handleSearch s)) = 1
   \<and> page (filters (removeLocationChip s)) = 1
   \<and> page (filters (removeEmploymentTypeChip s)) = 1
   \<and> page (filters (removeExperienceLevelChip s)) = 1
   \<and> page (filters (handleClearFilters s)) = 1"
  by (simp add: handleApplyFilters_def handleSearch_def removeLocationChip_def
      removeEmploymentTypeChip_def removeExperienceLevelChip_def handleClearFilters_def
      page_setFilters defaultFilters_def)




text \<open>
  C2, as stated: for every sequence of load-more operations the items hold each id at most
  once.  It fails on the run below: the first page arrives, the user scrolls to the end,
  the screen renders and fetches, and the second page repeats job 1.
\<close>

theorem loadMore_duplicates_counterexample:
  "jobs (run [LoadSettled 0 firstPage, LoadMore, Render, LoadSettled 0 overlappingPage] mount)
     = [job1, job1, job2]
   \<and> \<not> distinct (map id' (jobs (run [LoadSettled 0 firstPage, LoadMore, Render,
                                        LoadSettled 0 overlappingPage] mount)))"
  by (simp add: eval_defs)

text \<open>
  C2, amended.  A successful load-more appends the fetched page to the items as it is, after
  the items already there and in the order received; nothing is filtered by id.  The
  result holds each id at most once exactly when the old items and the fetched page each
  do and they share no id.
\<close>

theorem loadMore_appends:
  assumes "\<not> isLoadingMore s" and "pg_page (pagination s) < pg_totalPages (pagination s)"
  shows "jobs (run [LoadMore, Render, LoadSettled (length (pending s)) (Response (Some newJobs) pgo)] s)
           = jobs s @ newJobs
    \<and> distinct (map id' (jobs (run [LoadMore, Render,
                                     LoadSettled (length (pending s)) (Response (Some newJobs) pgo)] s)))
        = (distinct (map id' (jobs s)) \<and> distinct (map id' newJobs)
           \<and> set (map id' (jobs s)) \<inter> set (map id' newJobs) = {})"
proof -
  let ?f = "(filters s)\<lparr>page := (if page (filters s) = 0 then 1 else page (filters s)) + 1\<rparr>"
  let ?r = "\<lparr>req_isRefresh = False, req_filters = ?f\<rparr>"
  define s1 where "s1 = step Render (handleLoadMore s)"
  have lm: "handleLoadMore s = setFilters ?f s"
    using assms by (simp add: handleLoadMore_def)
  have p: "pending s1 = pending s @ [?r]"
    unfolding s1_def lm by (rule pending_render_setFilters)
  have j1: "jobs s1 = jobs s"
    unfolding s1_def lm by (rule jobs_render_setFilters)
  have ne: "page ?f \<noteq> 1"
    by simp
  have "step (LoadSettled (length (pending s)) (Response (Some newJobs) pgo)) s1
          = loadJobs_settle ?r (Response (Some newJobs) pgo) (s1\<lparr>pending := pending s\<rparr>)"
    by (rule step_LoadSettled_last [OF p])
  moreover have "jobs (loadJobs_settle ?r (Response (Some newJobs) pgo) (s1\<lparr>pending := pending s\<rparr>))
          = jobs s @ newJobs"
    using ne by (simp add: loadJobs_settle_def loadJobs_finally_def Let_def j1 split: option.splits)
  ultimately have "jobs (step (LoadSettled (length (pending s)) (Response (Some newJobs) pgo)) s1)
          = jobs s @ newJobs"
    by simp
  then have j: "jobs (run [LoadMore, Render, LoadSettled (length (pending s)) (Response (Some newJobs) pgo)] s)
          = jobs s @ newJobs"
    by (simp add: s1_def)
  show ?thesis
    unfolding j by simp
qed

text \<open>A load-more from the state after the first page, answered with job 2.\<close>

theorem loadMore_appends_witness:
  "jobs (run [LoadMore, Render, LoadSettled 0 (Response (Some [job2]) None)]
          (run [LoadSettled 0 firstPage] mount))
     = [job1, job2]"
  using loadMore_appends [of "run [LoadSettled 0 firstPage] mount" "[job2]" None]
  by (simp add: eval_defs)

subsection \<open>Failed fetches\<close>

text \<open>
  C6.  A call of \<^verbatim>\<open>loadJobs\<close> (refresh, initial or filter fetch) that is rejected leaves
  the items as they were: neither its start nor its \<^verbatim>\<open>catch\<close> and \<^verbatim>\<open>finally\<close> blocks touch
  them.  One error alert is raised, and \<^verbatim>\<open>isRefreshing\<close> is false afterwards, as are the
  other two flags.  \<^verbatim>\<open>handleRefresh\<close> itself leaves the items alone too.
\<close>

theorem failed_fetch_keeps_items:
  "jobs (loadJobs_start isRefresh s) = jobs s
   \<and> jobs (handleRefresh s) = jobs s
   \<and> jobs (loadJobs_settle req (Failed e) s) = jobs s
   \<and> jobs (loadJobs_settle req (Failed e) (loadJobs_start isRefresh s)) = jobs s
   \<and> jobs (step (LoadSettled i (Failed e)) s) = jobs s
   \<and> alerts (loadJobs_settle req (Failed e) s) =
       alerts s @ [Alert ''Error'' (orElse e ''Failed to load jobs'')]
   \<and> \<not> isRefreshing (loadJobs_settle req (Failed e) s)
   \<and> \<not> isLoading (loadJobs_settle req (Failed e) s)
   \<and> \<not> isLoadingMore (loadJobs_settle req (Failed e) s)"
  by (simp add: loadJobs_start_def handleRefresh_def setFilters_def loadJobs_settle_def
      loadJobs_finally_def Let_def)

text \<open>
  C5, as stated: a failed load-more rolls the page of the query back.  On the run below the
  page is 1 before the load-more and 2 after its failure, and the next load-more asks for
  page 3.
\<close>

theorem loadMore_failure_counterexample:
  "page (filters (run [LoadSettled 0 firstPage] mount)) = 1
   \<and> page (filters (run [LoadSettled 0 firstPage, LoadMore, Render, LoadSettled 0 (Failed None)] mount)) = 2
   \<and> pending (run [LoadSettled 0 firstPage, LoadMore, Render, LoadSettled 0 (Failed None),
                   LoadMore, Render] mount)
       = [\<lparr>req_isRefresh = False, req_filters = defaultFilters\<lparr>page := 3\<rparr>\<rparr>]"
  by (simp add: eval_defs)

text \<open>
  C5, amended.  When a load-more fetch fails, the page of the query is not rolled back: it
  keeps the incremented value, while items and pagination are as before and
  \<^verbatim>\<open>isLoadingMore\<close> is false again; the next load-more therefore requests the page after
  the failed one.
\<close>

theorem loadMore_failure_keeps_page:
  assumes "\<not> isLoadingMore s" and "pg_page (pagination s) < pg_totalPages (pagination s)"
    and "1 \<le> page (filters s)"
  shows "page (filters (run [LoadMore, Render, LoadSettled (length (pending s)) (Failed e)] s))
           = page (filters s) + 1
    \<and> jobs (run [LoadMore, Render, LoadSettled (length (pending s)) (Failed e)] s) = jobs s
    \<and> pagination (run [LoadMore, Render, LoadSettled (length (pending s)) (Failed e)] s) = pagination s
    \<and> \<not> isLoadingMore (run [LoadMore, Render, LoadSettled (length (pending s)) (Failed e)] s)
    \<and> pending (run [LoadMore, Render, LoadSettled (length (pending s)) (Failed e), LoadMore, Render] s)
        = pending s @ [\<lparr>req_isRefresh = False, req_filters = (filters s)\<lparr>page := page (filters s) + 2\<rparr>\<rparr>]"
proof -
  let ?f = "(filters s)\<lparr>page := page (filters s) + 1\<rparr>"
  let ?r = "\<lparr>req_isRefresh = False, req_filters = ?f\<rparr>"
  define s1 where "s1 = step Render (handleLoadMore s)"
  define s2 where "s2 = step (LoadSettled (length (pending s)) (Failed e)) s1"
  have lm: "handleLoadMore s = setFilters ?f s"
    using assms by (simp add: handleLoadMore_def)
  have p1: "pending s1 = pending s @ [?r]"
    unfolding s1_def lm by (rule pending_render_setFilters)
  have s2_eq: "s2 = loadJobs_settle ?r (Failed e) (s1\<lparr>pending := pending s\<rparr>)"
    unfolding s2_def by (rule step_LoadSettled_last [OF p1])
  have f2: "filters s2 = ?f" and j2: "jobs s2 = jobs s" and g2: "pagination s2 = pagination s"
    and l2: "\<not> isLoadingMore s2" and p2: "pending s2 = pending s"
    by (simp_all add: s2_eq s1_def lm setFilters_def useEffect_filters_def loadJobs_start_def
        loadJobs_settle_def loadJobs_finally_def Let_def)
  have lm2: "handleLoadMore s2 = setFilters ((filters s)\<lparr>page := page (filters s) + 2\<rparr>) s2"
    using assms by (simp add: handleLoadMore_def f2 g2 l2 add.commute)
  have "pending (step Render (handleLoadMore s2))
          = pending s @ [\<lparr>req_isRefresh = False, req_filters = (filters s)\<lparr>page := page (filters s) + 2\<rparr>\<rparr>]"
    unfolding lm2 by (simp only: pending_render_setFilters p2)
  then show ?thesis
    using f2 j2 g2 l2 by (simp add: s1_def s2_def)
qed

text \<open>A load-more from the state after the first page, rejected without a response.\<close>

theorem loadMore_failure_keeps_page_witness:
  "page (filters (run [LoadMore, Render, LoadSettled 0 (Failed None)]
                   (run [LoadSettled 0 firstPage] mount))) = 2"
  using loadMore_failure_keeps_page [of "run [LoadSettled 0 firstPage] mount" None]
  by (simp add: eval_defs)

subsection \<open>Overlapping fetches\<close>

text \<open>
  C3, as stated: a response to a superseded query is discarded.  On the run below a
  load-more for page 2 of the unfiltered query is pending when the filter modal is applied
  with a location; the filtered result [job 2] arrives first, the stale page arrives second
  and is appended to it.
\<close>

theorem stale_response_counterexample:
  "jobs (run [LoadSettled 0 firstPage, LoadMore, Render, OpenFilters,
              ApplyFilters (defaultFilters\<lparr>location := Some ''Cebu''\<rparr>), Render,
              LoadSettled 1 (Response (Some [job2]) (Some \<lparr>pg_total = 1, pg_page = 1, pg_totalPages = 1\<rparr>)),
              LoadSettled 0 overlappingPage] mount)
     = [job2, job1, job2]
   \<and> jobs (run [LoadSettled 0 firstPage, LoadMore, Render, OpenFilters,
              ApplyFilters (defaultFilters\<lparr>location := Some ''Cebu''\<rparr>), Render,
              LoadSettled 1 (Response (Some [job2]) (Some \<lparr>pg_total = 1, pg_page = 1, pg_totalPages = 1\<rparr>)),
              LoadSettled 0 overlappingPage] mount)
     \<noteq> [job2]"
  by (simp add: eval_defs)

text \<open>
  C3, amended.  Responses are applied in the order they arrive, with no check against the
  current query.  When a fetch A is pending, \<^verbatim>\<open>handleApplyFilters\<close> issues B, B's response
  arrives and then A's, the final items are A's result if A was a page-1 or refresh
  request, and B's result followed by A's if A was a load-more.
\<close>

theorem responses_applied_in_arrival_order:
  assumes "i < length (pending s)"
  shows "jobs (run [ApplyFilters queryB, Render,
                    LoadSettled (length (pending s)) (Response (Some jobsB) (Some pB)),
                    LoadSettled i (Response (Some jobsA) (Some pA))] s)
         = (if page (req_filters (pending s ! i)) = 1 \<or> req_isRefresh (pending s ! i)
            then jobsA else jobsB @ jobsA)"
proof -
  let ?rB = "\<lparr>req_isRefresh = False, req_filters = queryB\<lparr>page := 1\<rparr>\<rparr>"
  define s1 where "s1 = step Render (handleApplyFilters queryB s)"
  define s2 where "s2 = step (LoadSettled (length (pending s)) (Response (Some jobsB) (Some pB))) s1"
  have p1: "pending s1 = pending s @ [?rB]"
    unfolding s1_def handleApplyFilters_def by (simp only: pending_render_setFilters) simp
  have s2_eq: "s2 = loadJobs_settle ?rB (Response (Some jobsB) (Some pB)) (s1\<lparr>pending := pending s\<rparr>)"
    unfolding s2_def by (rule step_LoadSettled_last [OF p1])
  have j2: "jobs s2 = jobsB"
    by (simp add: s2_eq loadJobs_settle_def loadJobs_finally_def Let_def)
  have p2: "pending s2 = pending s"
    by (simp add: s2_eq loadJobs_settle_def loadJobs_finally_def Let_def)
  have "jobs (step (LoadSettled i (Response (Some jobsA) (Some pA))) s2)
          = (if page (req_filters (pending s ! i)) = 1 \<or> req_isRefresh (pending s ! i)
             then jobsA else jobsB @ jobsA)"
    using assms by (simp add: p2 j2 loadJobs_settle_def loadJobs_finally_def Let_def)
  then show ?thesis
    by (simp add: s1_def s2_def)
qed

text \<open>The pending fetch is the load-more issued after the first page.\<close>

theorem responses_applied_in_arrival_order_witness:
  "jobs (run [ApplyFilters (defaultFilters\<lparr>location := Some ''Cebu''\<rparr>), Render,
              LoadSettled 1 (Response (Some [job2]) (Some \<lparr>pg_total = 1, pg_page = 1, pg_totalPages = 1\<rparr>)),
              LoadSettled 0 (Response (Some [job1]) (Some \<lparr>pg_total = 3, pg_page = 2, pg_totalPages = 3\<rparr>))]
          (run [LoadSettled 0 firstPage, LoadMore, Render] mount))
     = [job2, job1]"
  using responses_applied_in_arrival_order [of 0 "run [LoadSettled 0 firstPage, LoadMore, Render] mount"
      "defaultFilters\<lparr>location := Some ''Cebu''\<rparr>"
      "[job2]" "\<lparr>pg_total = 1, pg_page = 1, pg_totalPages = 1\<rparr>"
      "[job1]" "\<lparr>pg_total = 3, pg_page = 2, pg_totalPages = 3\<rparr>"]
  by (simp add: eval_defs)

text \<open>
  C9, as stated: at most one of the three flags is true in every reachable state.  After the
  first page has arrived, a pull-to-refresh sets \<^verbatim>\<open>isRefreshing\<close> in \<^verbatim>\<open>loadJobs(true)\<close>, and
  after the render that follows \<^verbatim>\<open>isLoading\<close> is set by the fetch its filter update
  triggers.
\<close>

theorem flags_overlap_counterexample:
  "isLoading (run [LoadSettled 0 firstPage, Refresh, Render] mount)
   \<and> isRefreshing (run [LoadSettled 0 firstPage, Refresh, Render] mount)"
  by (simp add: eval_defs)

text \<open>
  C9, amended.  A call of \<^verbatim>\<open>loadJobs\<close> started while all three flags are false leaves
  exactly one of them true, and every settled call, fulfilled or rejected, leaves all
  three false.  The flags of overlapping fetches are not exclusive: \<^verbatim>\<open>handleRefresh\<close>
  sets \<^verbatim>\<open>isRefreshing\<close>, and after the render that follows it both \<^verbatim>\<open>isRefreshing\<close> and
  \<^verbatim>\<open>isLoading\<close> are true.
\<close>

theorem flags_per_fetch:
  "(flagCount s = 0 \<longrightarrow> flagCount (loadJobs_start isRefresh s) = 1)
   \<and> flagCount (loadJobs_settle req resp s) = 0
   \<and> isRefreshing (handleRefresh s)
   \<and> isRefreshing (run [Refresh, Render] s) \<and> isLoading (run [Refresh, Render] s)"
  by (simp add: flagCount_def loadJobs_start_def loadJobs_settle_def loadJobs_finally_def
      handleRefresh_def setFilters_def useEffect_filters_def Let_def
      split: jobs_response.splits option.splits)

text \<open>A refresh fetch started from the idle state after the first page.\<close>

theorem flags_per_fetch_witness:
  "flagCount (run [LoadSettled 0 firstPage] mount) = 0
   \<and> flagCount (loadJobs_start True (run [LoadSettled 0 firstPage] mount)) = 1"
  using flags_per_fetch [of "run [LoadSettled 0 firstPage] mount" True]
  by (simp add: eval_defs flagCount_def)

subsection \<open>Saving a job\<close>

text \<open>
  C4, as stated: the saved flag is flipped at once, before the gateway call resolves.  On
  the run below job 1 is unsaved, and after \<^verbatim>\<open>handleSaveJob\<close> has issued the call it is
  still unsaved while the call is in flight.
\<close>

theorem toggle_not_optimistic_counterexample:
  "map isSaved (jobs (run [LoadSettled 0 firstPage] mount)) = [False]
   \<and> map isSaved (jobs (run [LoadSettled 0 firstPage, SaveJob ''1''] mount)) = [False]
   \<and> pendingSaves (run [LoadSettled 0 firstPage, SaveJob ''1''] mount)
       = [\<lparr>sv_jobId = ''1'', sv_wasSaved = False\<rparr>]"
  by (simp add: eval_defs)

text \<open>
  C4, amended.  A save or unsave toggle leaves the items as they are while the gateway
  call is pending; a fulfilled call flips the saved flag of the jobs with that id and of
  no other, and a rejected call leaves the items unchanged, so that the flag has its value
  from before the toggle, and raises one error alert.  The job details screen does the
  same with its single job.
\<close>

theorem toggle_after_success_only:
  "jobs (handleSaveJob_start jobId s) = jobs s
   \<and> jobs (handleSaveJob_settle req (SaveFailed e) s) = jobs s
   \<and> alerts (handleSaveJob_settle req (SaveFailed e) s) =
       alerts s @ [Alert ''Error'' (orElse e ''Failed to save job'')]
   \<and> map isSaved (jobs (handleSaveJob_settle req SaveOk s)) =
       map (\<lambda>j. if id' j = sv_jobId req then \<not> isSaved j else isSaved j) (jobs s)
   \<and> map id' (jobs (handleSaveJob_settle req SaveOk s)) = map id' (jobs s)
   \<and> job (details_handleSaveJob_start d) = job d
   \<and> job (details_handleSaveJob_settle j (SaveFailed e) d) = job d
   \<and> details_alerts (details_handleSaveJob_settle j (SaveFailed e) d) =
       details_alerts d @ [Alert ''Error'' (orElse e ''Failed to save job'')]
   \<and> job (details_handleSaveJob_settle j SaveOk d) = Some (j\<lparr>isSaved := \<not> isSaved j\<rparr>)"
  by (simp add: handleSaveJob_start_def handleSaveJob_settle_def details_handleSaveJob_start_def
      details_handleSaveJob_settle_def split: option.splits)

subsection \<open>Session\<close>

text \<open>
  C1.  A response with status 401 on a storage holding a complete session: the
  interceptor removes \<^verbatim>\<open>authToken\<close> and \<^verbatim>\<open>userRole\<close> and rejects with the same error, but
  \<^verbatim>\<open>userData\<close> is still stored afterwards.  \<^verbatim>\<open>logout\<close> on the same storage removes it.
\<close>

theorem responseInterceptor_401_keeps_userData:
  "fst (responseInterceptor \<lparr>response_status = Some 401\<rparr> storedSession) ''authToken'' = None
   \<and> fst (responseInterceptor \<lparr>response_status = Some 401\<rparr> storedSession) ''userRole'' = None
   \<and> fst (responseInterceptor \<lparr>response_status = Some 401\<rparr> storedSession) ''userData'' = Some ''{}''
   \<and> snd (responseInterceptor \<lparr>response_status = Some 401\<rparr> storedSession) = \<lparr>response_status = Some 401\<rparr>
   \<and> fst (logout (storedSession, initialAuth :: string AuthProvider)) ''userData'' = None"
  by (simp add: responseInterceptor_def removeItem_def storedSession_def logout_def)

text \<open>
  C10.  Unless all three of \<^verbatim>\<open>authToken\<close>, \<^verbatim>\<open>userRole\<close> and \<^verbatim>\<open>userData\<close> are read from
  storage with a non-empty value, \<^verbatim>\<open>checkAuthStatus\<close> leaves token, role and user as
  they were; at app start, where they are \<^verbatim>\<open>null\<close>, they stay \<^verbatim>\<open>null\<close> and
  \<^verbatim>\<open>isAuthenticated\<close> is false.  A missing key is the case \<open>read k = Returns None\<close>.
\<close>

theorem checkAuthStatus_all_or_nothing:
  assumes "\<not> (truthy (read ''authToken'') \<and> truthy (read ''userRole'') \<and> truthy (read ''userData''))"
  shows "token (checkAuthStatus parse read s) = token s
    \<and> userRole (checkAuthStatus parse read s) = userRole s
    \<and> user (checkAuthStatus parse read s) = user s
    \<and> token (checkAuthStatus parse read initialAuth) = None
    \<and> userRole (checkAuthStatus parse read initialAuth) = None
    \<and> user (checkAuthStatus parse read initialAuth) = None
    \<and> \<not> isAuthenticated (checkAuthStatus parse read initialAuth)"
  using assms
  by (auto simp add: checkAuthStatus_def initialAuth_def isAuthenticated_def split: outcome.splits)

text \<open>A storage with token and role but no user data.\<close>

theorem checkAuthStatus_all_or_nothing_witness:
  "\<not> truthy (getItem (removeItem ''userData'' storedSession) ''userData'')
   \<and> token (checkAuthStatus parseAny (getItem (removeItem ''userData'' storedSession)) initialAuth) = None
   \<and> userRole (checkAuthStatus parseAny (getItem (removeItem ''userData'' storedSession)) initialAuth) = None
   \<and> user (checkAuthStatus parseAny (getItem (removeItem ''userData'' storedSession)) initialAuth) = None
   \<and> \<not> isAuthenticated (checkAuthStatus parseAny (getItem (removeItem ''userData'' storedSession)) initialAuth)"
proof -
  have h: "\<not> (truthy (getItem (removeItem ''userData'' storedSession) ''authToken'')
              \<and> truthy (getItem (removeItem ''userData'' storedSession) ''userRole'')
              \<and> truthy (getItem (removeItem ''userData'' storedSession) ''userData''))"
    by (simp add: getItem_def removeItem_def storedSession_def)
  have m: "\<not> truthy (getItem (removeItem ''userData'' storedSession) ''userData'')"
    by (simp add: getItem_def removeItem_def storedSession_def)
  show ?thesis
    using m checkAuthStatus_all_or_nothing [OF h, of parseAny initialAuth] by blast
qed

text \<open>
  With a complete session the state is restored; when \<^verbatim>\<open>JSON.parse\<close> throws on the stored
  user data, token and role have been set already and only the user stays \<^verbatim>\<open>null\<close>.
\<close>

lemma checkAuthStatus_restores:
  "checkAuthStatus parseAny (getItem storedSession) initialAuth
     = \<lparr>user = Some ''{}'', userRole = Some ''JOB_SEEKER'', auth_isLoading = False, token = Some ''t0k3n''\<rparr>"
  by (simp add: checkAuthStatus_def getItem_def storedSession_def parseAny_def initialAuth_def)

lemma checkAuthStatus_parse_error:
  "checkAuthStatus (\<lambda>text. Throws) (getItem storedSession) (initialAuth :: string AuthProvider)
     = \<lparr>user = None, userRole = Some ''JOB_SEEKER'', auth_isLoading = False, token = Some ''t0k3n''\<rparr>"
  by (simp add: checkAuthStatus_def getItem_def storedSession_def initialAuth_def)


end
